theory Spec2Isabelle
  imports Main "HOL-Library.Multiset"
begin

section \<open>Values shared by the components\<close>

text \<open>
  A JavaScript number used as an array index or produced by \<open>parseInt\<close>: an integer or
  \<open>NaN\<close>. Fractions and infinities are left out: \<open>parseInt\<close> produces neither from a
  string of ordinary length, and as an index both read \<open>undefined\<close>, as \<open>NaN\<close> does.
\<close>

datatype number = Num int | NaN

text \<open>\<open>xs[n]\<close>: reading an array out of range gives \<open>undefined\<close>, it does not raise.\<close>

definition item_at :: "'a list \<Rightarrow> number \<Rightarrow> 'a option" where
  "item_at xs n =
     (case n of
        NaN \<Rightarrow> None
      | Num i \<Rightarrow> if 0 \<le> i \<and> i < int (length xs) then Some (xs ! nat i) else None)"

text \<open>\<open>n < 0\<close> on numbers: every comparison with \<open>NaN\<close> is false.\<close>

definition negative :: "number \<Rightarrow> bool" where
  "negative n = (case n of NaN \<Rightarrow> False | Num i \<Rightarrow> i < 0)"

text \<open>The exceptions that the modelled code can raise.\<close>

datatype error = TypeError

subsection \<open>The key/value store\<close>

text \<open>
  The keys are constants of \<open>config/constants\<close>; they are taken to be pairwise different
  names, one constructor each.
\<close>

datatype cookie_key = UserIdKey | EventsKey | SelectedProductIndex | DeepLinkURL | StartAppVersionKey

type_synonym 'v cookie_jar = "cookie_key \<Rightarrow> ('v \<times> nat) option"

text \<open>
  Modelled from the spec: the module \<open>cookies\<close> (\<open>setCookie\<close>, \<open>getCookie\<close>) is not part of
  the sources at hand. The spec describes it as a key/value store with a time to live in
  days, written by full-value replacement. Expiry is not modelled.
\<close>

definition setCookie :: "cookie_key \<Rightarrow> 'v \<Rightarrow> nat \<Rightarrow> 'v cookie_jar \<Rightarrow> 'v cookie_jar" where
  "setCookie k v days jar = jar(k \<mapsto> (v, days))"

definition getCookie :: "cookie_key \<Rightarrow> 'v cookie_jar \<Rightarrow> 'v option" where
  "getCookie k jar = map_option fst (jar k)"

text \<open>
  The life time \<open>SelectedProductDuration\<close>, in days, is a constant of \<open>config/constants\<close>
  too; its value is a parameter of the model.
\<close>

record constants =
  SelectedProductDuration :: nat

section \<open>Selection state\<close>

text \<open>A product's property bag: nested objects with strings at the leaves.\<close>

datatype pvalue = PStr string | PObj "(string \<times> pvalue) list"

record Product =
  base_plan_id :: string
  properties :: "pvalue option"

record Paywall =
  paywall_id :: string
  items :: "Product list"

record Placement =
  placement_id :: string
  identifier_p :: string
  paywalls :: "Paywall list"

text \<open>
  The fields of \<open>ApphudSDK\<close> that the selection operations read and write. The private
  fields \<open>_currentPlacement\<close>, \<open>_currentPaywall\<close> and \<open>_currentProduct\<close> are
  \<open>priv_currentPlacement\<close> and so on; \<open>undefined\<close> is \<open>None\<close>. \<open>emitted\<close> records the
  payload of every \<open>emit("product_changed", ...)\<close>.
\<close>

record selection =
  placements :: "Placement list"
  priv_currentPlacement :: "Placement option"
  priv_currentPaywall :: "Paywall option"
  priv_currentProduct :: "Product option"
  cookies :: "string cookie_jar"
  emitted :: "Product option list"

text \<open>
  \<open>this.placements.find(elm => elm.identifier === id)\<close>; the id may be \<open>undefined\<close>.
  The field \<open>identifier\<close> of a placement is \<open>identifier_p\<close> here.
\<close>

definition findPlacementByID :: "selection \<Rightarrow> string option \<Rightarrow> Placement option" where
  "findPlacementByID s pid = find (\<lambda>elm. Some (identifier_p elm) = pid) (placements s)"

definition setCurrentItems :: "string \<Rightarrow> number \<Rightarrow> selection \<Rightarrow> selection" where
  "setCurrentItems placementID productIndex s =
     (let s1 = s\<lparr>priv_currentPlacement := findPlacementByID s (Some placementID)\<rparr>
      in case priv_currentPlacement s1 of
           None \<Rightarrow> s1
         | Some p \<Rightarrow>
             (case paywalls p of
                [] \<Rightarrow> s1
              | w # _ \<Rightarrow> s1\<lparr>priv_currentPaywall := Some w,
                              priv_currentProduct := item_at (items w) productIndex\<rparr>))"

definition currentPlacement :: "selection \<Rightarrow> Placement option" where
  "currentPlacement s =
     (case priv_currentPlacement s of
        Some p \<Rightarrow> Some p
      | None \<Rightarrow> item_at (placements s) (Num 0))"

definition currentPaywall :: "selection \<Rightarrow> Paywall option" where
  "currentPaywall s =
     (case priv_currentPaywall s of
        Some w \<Rightarrow> Some w
      | None \<Rightarrow>
          (case currentPlacement s of
             Some p \<Rightarrow> item_at (paywalls p) (Num 0)
           | None \<Rightarrow> None))"

definition currentProduct :: "selection \<Rightarrow> Product option" where
  "currentProduct s =
     (case priv_currentProduct s of
        Some x \<Rightarrow> Some x
      | None \<Rightarrow>
          (case currentPaywall s of
             Some w \<Rightarrow> item_at (items w) (Num 0)
           | None \<Rightarrow> None))"

subsection \<open>Strings: split, trim, parseInt, number to string\<close>

text \<open>
  \<open>s.split(',')\<close>: the pieces between the separators; a string without a separator is
  one piece, the empty string too.
\<close>

fun split_on :: "char \<Rightarrow> string \<Rightarrow> string list" where
  "split_on c [] = [[]]"
| "split_on c (x # xs) =
     (if x = c then [] # split_on c xs
      else (case split_on c xs of
              [] \<Rightarrow> [[x]]
            | y # ys \<Rightarrow> (x # y) # ys))"

text \<open>
  White space as \<open>trim\<close> and \<open>parseInt\<close> skip it, among the ASCII characters: tab, line
  feed, vertical tab, form feed, carriage return, space. The white space that JavaScript
  knows beyond ASCII is not modelled.
\<close>

definition is_space :: "char \<Rightarrow> bool" where
  "is_space c = (c \<in> set [CHR 0x09, CHR 0x0A, CHR 0x0B, CHR 0x0C, CHR 0x0D, CHR '' ''])"

definition trim :: "string \<Rightarrow> string" where
  "trim s = rev (dropWhile is_space (rev (dropWhile is_space s)))"

definition digit_value :: "char \<Rightarrow> nat option" where
  "digit_value c =
     (let n = of_char c :: nat
      in if 48 \<le> n \<and> n \<le> 57 then Some (n - 48)
         else if 97 \<le> n \<and> n \<le> 102 then Some (n - 87)
         else if 65 \<le> n \<and> n \<le> 70 then Some (n - 55)
         else None)"

definition is_digit :: "nat \<Rightarrow> char \<Rightarrow> bool" where
  "is_digit radix c = (case digit_value c of None \<Rightarrow> False | Some d \<Rightarrow> d < radix)"

definition digits_value :: "nat \<Rightarrow> string \<Rightarrow> nat" where
  "digits_value radix ds = foldl (\<lambda>acc c. acc * radix + the (digit_value c)) 0 ds"

text \<open>
  \<open>parseInt(s)\<close> with no radix: skip leading white space, read a sign, read the prefix
  \<open>0x\<close> or \<open>0X\<close> as radix 16, take the longest run of digits; no digit gives \<open>NaN\<close>.
  \<open>digits_value\<close> is applied to digits only, where \<open>digit_value\<close> is defined.
\<close>

definition parseInt :: "string \<Rightarrow> number" where
  "parseInt s =
     (let s1 = dropWhile is_space s;
          neg = (case s1 of c # _ \<Rightarrow> c = CHR ''-'' | [] \<Rightarrow> False);
          s2 = (case s1 of c # r \<Rightarrow> if c = CHR ''+'' \<or> c = CHR ''-'' then r else s1 | [] \<Rightarrow> s1);
          hex = (take 2 s2 = ''0x'' \<or> take 2 s2 = ''0X'');
          radix = (if hex then 16 else 10);
          s3 = (if hex then drop 2 s2 else s2);
          z = takeWhile (is_digit radix) s3
      in if z = [] then NaN
         else Num ((if neg then - 1 else 1) * int (digits_value radix z)))"

fun show_nat :: "nat \<Rightarrow> string" where
  "show_nat n =
     (if n < 10 then [''0123456789'' ! n]
      else show_nat (n div 10) @ [''0123456789'' ! (n mod 10)])"

text \<open>
  The text of a number inside a template literal. The exponent notation that JavaScript
  uses from \<open>1e21\<close> on is not modelled.
\<close>

definition show_number :: "number \<Rightarrow> string" where
  "show_number n =
     (case n of
        NaN \<Rightarrow> ''NaN''
      | Num i \<Rightarrow> if i < 0 then CHR ''-'' # show_nat (nat (- i)) else show_nat (nat i))"

subsection \<open>Selecting, and resolving variables\<close>

definition selectPlacementProduct ::
  "constants \<Rightarrow> string \<Rightarrow> number \<Rightarrow> selection \<Rightarrow> selection" where
  "selectPlacementProduct K placementID productIndex s =
     (let s1 = setCurrentItems placementID productIndex s;
          s2 = s1\<lparr>cookies := setCookie SelectedProductIndex
                                (placementID @ '','' @ show_number productIndex)
                                (SelectedProductDuration K) (cookies s1)\<rparr>
      in s2\<lparr>emitted := emitted s2 @ [currentProduct s2]\<rparr>)"

definition getSavedPlacementProductIndex :: "selection \<Rightarrow> string option \<times> number" where
  "getSavedPlacementProductIndex s =
     (case getCookie SelectedProductIndex (cookies s) of
        None \<Rightarrow> (None, Num 0)
      | Some savedIndices \<Rightarrow>
          (let arr = map trim (split_on CHR '','' savedIndices)
           in if length arr = 2 then (Some (arr ! 0), parseInt (arr ! 1))
              else (None, Num 0)))"

text \<open>
  Modelled from the spec: \<open>u.getValueByPath\<close> of the module \<open>utils\<close> is not part of the
  sources at hand. The spec says that it looks a dotted path up inside the property bag and
  that a missing path yields no value. A path that ends at a nested object is taken to
  yield no value either.
\<close>

fun lookup_path :: "string list \<Rightarrow> pvalue \<Rightarrow> string option" where
  "lookup_path [] (PStr v) = Some v"
| "lookup_path [] (PObj _) = None"
| "lookup_path (k # ks) (PStr _) = None"
| "lookup_path (k # ks) (PObj kvs) =
     (case map_of kvs k of None \<Rightarrow> None | Some v \<Rightarrow> lookup_path ks v)"

definition getValueByPath :: "pvalue \<Rightarrow> string \<Rightarrow> string option" where
  "getValueByPath bag path = lookup_path (split_on CHR ''.'' path) bag"

text \<open>
  \<open>placementID === null\<close>: the value compared is a string taken from \<open>split\<close>, or
  \<open>undefined\<close>; neither is strictly equal to \<open>null\<close>.
\<close>

definition strictly_null :: "string option \<Rightarrow> bool" where
  "strictly_null v = False"

text \<open>
  The result is \<open>Inl TypeError\<close> where the source reads \<open>.items\<close> of \<open>undefined\<close>
  (a placement without paywalls), \<open>Inr None\<close> where it returns \<open>null\<close>.
\<close>

definition readVariableValueByKeyPath :: "selection \<Rightarrow> string \<Rightarrow> error + string option" where
  "readVariableValueByKeyPath s key =
     (let keyArr = map trim (split_on CHR '','' key);
          path = last keyArr;
          (placementID, productIndex) =
            (if length keyArr = 3 then
               (let placementID = Some (keyArr ! 0);
                    productIndex = parseInt (keyArr ! 1)
                in if strictly_null placementID \<or> negative productIndex
                   then getSavedPlacementProductIndex s
                   else (placementID, productIndex))
             else if length keyArr = 1 then getSavedPlacementProductIndex s
             else (None, Num 0))
      in case findPlacementByID s placementID of
           None \<Rightarrow> Inr None
         | Some placement \<Rightarrow>
             (case item_at (paywalls placement) (Num 0) of
                None \<Rightarrow> Inl TypeError
              | Some paywall \<Rightarrow>
                  (case item_at (items paywall) productIndex of
                     None \<Rightarrow> Inr None
                   | Some product \<Rightarrow>
                       (case properties product of
                          None \<Rightarrow> Inr None
                        | Some bag \<Rightarrow> Inr (getValueByPath bag path)))))"

section \<open>Readiness gate and callback queue\<close>

text \<open>
  What a callback handed to \<open>ready\<close> does, as far as the gate can see it: it runs a
  sequence of statements, each of which either calls \<open>this.ready\<close> with a further
  callback or throws. The number identifies the callback in the two logs below. Callbacks
  are finite trees, so a callback cannot hand itself to \<open>ready\<close> again for ever.
\<close>

datatype callback = Callback (cid: nat) (body: "stmt list")
  and stmt = CallReady callback | Throw

datatype outcome = Returned | Thrown

text \<open>
  \<open>isReady\<close> and \<open>queue\<close> are the fields of \<open>ApphudSDK\<close>. \<open>readyEmitted\<close> counts the
  calls of \<open>emit("ready", this)\<close>. \<open>submitted\<close> and \<open>executed\<close> are logs kept for the
  proofs only: \<open>ready\<close> appends the callback's number to \<open>submitted\<close> when it is called,
  and a callback appends its number to \<open>executed\<close> when it starts to run.
\<close>

record gate =
  isReady :: bool
  queue :: "callback list"
  readyEmitted :: nat
  submitted :: "nat list"
  executed :: "nat list"

text \<open>
  \<open>ready c\<close> is \<open>this.ready(c)\<close>, \<open>invoke c\<close> is the call \<open>c()\<close>, \<open>run_body\<close> runs the
  statements of a callback. An exception ends every enclosing call; the assignments made
  before it stay.
\<close>

fun ready :: "callback \<Rightarrow> gate \<Rightarrow> outcome \<times> gate"
  and invoke :: "callback \<Rightarrow> gate \<Rightarrow> outcome \<times> gate"
  and run_body :: "stmt list \<Rightarrow> gate \<Rightarrow> outcome \<times> gate" where
  "ready c s =
     (let s1 = s\<lparr>submitted := submitted s @ [cid c]\<rparr>
      in if isReady s1 then invoke c s1
         else (Returned, s1\<lparr>queue := queue s1 @ [c]\<rparr>))"
| "invoke (Callback n b) s = run_body b (s\<lparr>executed := executed s @ [n]\<rparr>)"
| "run_body [] s = (Returned, s)"
| "run_body (Throw # rest) s = (Thrown, s)"
| "run_body (CallReady c # rest) s =
     (case ready c s of
        (Thrown, s1) \<Rightarrow> (Thrown, s1)
      | (Returned, s1) \<Rightarrow> run_body rest s1)"

definition weight :: "callback list \<Rightarrow> nat" where
  "weight q = sum_list (map size q)"

text \<open>
  The loop \<open>while ((callback = this.queue.shift())) callback()\<close>. A callback is a
  function, hence truthy, so the loop ends only on the empty queue or on an exception.
\<close>

function drain :: "gate \<Rightarrow> outcome \<times> gate" where
  "drain s =
     (case queue s of
        [] \<Rightarrow> (Returned, s)
      | c # q \<Rightarrow>
          (case invoke c (s\<lparr>queue := q\<rparr>) of
             (Thrown, s1) \<Rightarrow> (Thrown, s1)
           | (Returned, s1) \<Rightarrow> drain s1))"
  by pat_completeness auto
termination
proof (relation "measure (\<lambda>s. weight (queue s))")
  show "wf (measure (\<lambda>s. weight (queue s)))" by simp
next
  fix s :: gate and c q and x :: outcome and s1 :: gate
  assume q: "queue s = c # q" and r: "(x, s1) = invoke c (s\<lparr>queue := q\<rparr>)"
  have bound:
    "weight (queue (snd (ready c r))) \<le> weight (queue r) + size c"
    "weight (queue (snd (invoke c r))) < weight (queue r) + size c"
    "weight (queue (snd (run_body b r))) \<le> weight (queue r) + size_list size b" for c b r
  proof (induction c r and c r and b r rule: ready_invoke_run_body.induct)
    case (1 c s)
    then show ?case by (auto simp: weight_def Let_def)
  next
    case (2 n b s)
    then show ?case by (auto simp: weight_def)
  next
    case (3 s)
    then show ?case by simp
  next
    case (4 rest s)
    then show ?case by simp
  next
    case (5 c rest s)
    show ?case
    proof (cases "ready c s")
      case (Pair o1 s1)
      show ?thesis
      proof (cases o1)
        case Returned
        with Pair 5 show ?thesis by (auto simp: weight_def)
      next
        case Thrown
        with Pair 5 show ?thesis by (auto simp: weight_def)
      qed
    qed
  qed
  from bound(2)[of c "s\<lparr>queue := q\<rparr>"] r[symmetric] q
  show "(s1, s) \<in> measure (\<lambda>s. weight (queue s))"
    by (simp add: weight_def)
qed

text \<open>
  \<open>setReady(initial)\<close>. An exception from a callback leaves \<open>setReady\<close> before
  \<open>this.isReady = true\<close>.
\<close>

definition setReady :: "bool \<Rightarrow> gate \<Rightarrow> outcome \<times> gate" where
  "setReady initial s =
     (case drain s of
        (Thrown, s1) \<Rightarrow> (Thrown, s1)
      | (Returned, s1) \<Rightarrow>
          (let s2 = s1\<lparr>isReady := True\<rparr>
           in if initial then (Returned, s2\<lparr>readyEmitted := readyEmitted s2 + 1\<rparr>)
              else (Returned, s2)))"

text \<open>A new \<open>ApphudSDK\<close>: the gate is closed and the queue is empty.\<close>

definition new_gate :: gate where
  "new_gate = \<lparr>isReady = False, queue = [], readyEmitted = 0, submitted = [], executed = []\<rparr>"

text \<open>The calls that reach the gate from outside, and a sequence of them.\<close>

datatype gate_call = Ready callback | SetReady bool

fun run_call :: "gate_call \<Rightarrow> gate \<Rightarrow> outcome \<times> gate" where
  "run_call (Ready c) s = ready c s"
| "run_call (SetReady initial) s = setReady initial s"

fun run_calls :: "gate_call list \<Rightarrow> gate \<Rightarrow> gate" where
  "run_calls [] s = s"
| "run_calls (x # xs) s = run_calls xs (snd (run_call x s))"

text \<open>The numbers of a callback and of every callback below it; callbacks that do not throw.\<close>

fun all_ids :: "callback \<Rightarrow> nat list"
  and body_ids :: "stmt list \<Rightarrow> nat list" where
  "all_ids (Callback n b) = n # body_ids b"
| "body_ids [] = []"
| "body_ids (Throw # rest) = body_ids rest"
| "body_ids (CallReady c # rest) = all_ids c @ body_ids rest"

fun no_throw :: "callback \<Rightarrow> bool"
  and no_throw_body :: "stmt list \<Rightarrow> bool" where
  "no_throw (Callback n b) = no_throw_body b"
| "no_throw_body [] = True"
| "no_throw_body (Throw # rest) = False"
| "no_throw_body (CallReady c # rest) = (no_throw c \<and> no_throw_body rest)"

fun submitted_callbacks :: "gate_call list \<Rightarrow> callback list" where
  "submitted_callbacks [] = []"
| "submitted_callbacks (Ready c # xs) = c # submitted_callbacks xs"
| "submitted_callbacks (SetReady i # xs) = submitted_callbacks xs"

text \<open>The callbacks that a body hands to \<open>ready\<close> before its first \<open>throw\<close>.\<close>

fun handed_over :: "stmt list \<Rightarrow> callback list" where
  "handed_over [] = []"
| "handed_over (Throw # rest) = []"
| "handed_over (CallReady c # rest) = c # handed_over rest"

section \<open>Event delivery queue\<close>

text \<open>
  Modelled from the spec: the type \<open>ApphudHash\<close> of the two property bags is declared in
  the module \<open>types\<close>, which is not part of the sources at hand. The spec calls the bags
  free-form, so a bag maps names to any value of the language: \<open>undefined\<close>, \<open>null\<close>, a
  boolean, a number (an integer or \<open>NaN\<close>), a string, a date (kept as the text that its
  \<open>toJSON\<close> returns), an array or a nested object. Values on which \<open>JSON.stringify\<close>
  throws (a \<open>BigInt\<close>, an object that contains itself) are left out.
\<close>

datatype jsvalue =
    VUndefined
  | VNull
  | VBool bool
  | VNumber number
  | VString string
  | VDate string
  | VArray "jsvalue list"
  | VObject "(string \<times> jsvalue) list"

type_synonym ApphudHash = "(string \<times> jsvalue) list"

text \<open>
  An event record. The fields \<open>name\<close>, \<open>properties\<close> and \<open>id\<close> of the source are
  \<open>event_name\<close>, \<open>event_properties\<close> and \<open>event_id\<close> here. \<open>user_id\<close>, \<open>device_id\<close> and
  \<open>id\<close> may be missing from the object, which is \<open>None\<close>.
\<close>

record EventData =
  event_name :: string
  event_properties :: ApphudHash
  user_properties :: ApphudHash
  timestamp :: int
  insert_id :: string
  user_id :: "string option"
  device_id :: "string option"
  event_id :: "string option"

text \<open>The body of the ingestion call, \<open>{events: [event], device_id, user_id}\<close>.\<close>

datatype Events =
  Events (events: "EventData list") (events_device_id: "string option")
    (events_user_id: "string option")

subsection \<open>JSON\<close>

text \<open>
  \<open>JSON.stringify\<close> and \<open>JSON.parse\<close> belong to the language. The text that
  \<open>JSON.stringify\<close> writes is kept as the JSON value it denotes (\<open>Stringified\<close>), and
  \<open>JSON.parse\<close> reads that value. Any other cookie text is \<open>Plain\<close>; parsing it is not
  modelled and counts as a syntax error.
\<close>

datatype json =
    JNull
  | JBool bool
  | JStr string
  | JNum int
  | JArr "json list"
  | JObj "(string \<times> json) list"

datatype cookie_text = Plain string | Stringified json

text \<open>
  What \<open>JSON.stringify\<close> writes for a value: \<open>NaN\<close> becomes \<open>null\<close>, a date becomes the
  string of its \<open>toJSON\<close>, \<open>undefined\<close> becomes \<open>null\<close> inside an array, and a property
  whose value is \<open>undefined\<close> is left out of its object.
\<close>

fun value_json :: "jsvalue \<Rightarrow> json"
  and elements_json :: "jsvalue list \<Rightarrow> json list"
  and members_json :: "(string \<times> jsvalue) list \<Rightarrow> (string \<times> json) list" where
  "value_json VUndefined = JNull"
| "value_json VNull = JNull"
| "value_json (VBool b) = JBool b"
| "value_json (VNumber n) = (case n of NaN \<Rightarrow> JNull | Num i \<Rightarrow> JNum i)"
| "value_json (VString x) = JStr x"
| "value_json (VDate d) = JStr d"
| "value_json (VArray xs) = JArr (elements_json xs)"
| "value_json (VObject kvs) = JObj (members_json kvs)"
| "elements_json [] = []"
| "elements_json (x # xs) = value_json x # elements_json xs"
| "members_json [] = []"
| "members_json ((k, v) # kvs) =
     (if v = VUndefined then members_json kvs else (k, value_json v) # members_json kvs)"

text \<open>The value that \<open>JSON.parse\<close> builds from a JSON value.\<close>

fun json_value :: "json \<Rightarrow> jsvalue"
  and json_elements :: "json list \<Rightarrow> jsvalue list"
  and json_members :: "(string \<times> json) list \<Rightarrow> (string \<times> jsvalue) list" where
  "json_value JNull = VNull"
| "json_value (JBool b) = VBool b"
| "json_value (JStr x) = VString x"
| "json_value (JNum i) = VNumber (Num i)"
| "json_value (JArr js) = VArray (json_elements js)"
| "json_value (JObj kvs) = VObject (json_members kvs)"
| "json_elements [] = []"
| "json_elements (j # js) = json_value j # json_elements js"
| "json_members [] = []"
| "json_members ((k, j) # kvs) = (k, json_value j) # json_members kvs"

definition hash_json :: "ApphudHash \<Rightarrow> json" where
  "hash_json h = JObj (members_json h)"

definition optional_field :: "string \<Rightarrow> string option \<Rightarrow> (string \<times> json) list" where
  "optional_field k v = (case v of None \<Rightarrow> [] | Some x \<Rightarrow> [(k, JStr x)])"

definition event_json :: "EventData \<Rightarrow> json" where
  "event_json e =
     JObj ([(''name'', JStr (event_name e)),
            (''properties'', hash_json (event_properties e)),
            (''user_properties'', hash_json (user_properties e)),
            (''timestamp'', JNum (timestamp e)),
            (''insert_id'', JStr (insert_id e))]
           @ optional_field ''user_id'' (user_id e)
           @ optional_field ''device_id'' (device_id e)
           @ optional_field ''id'' (event_id e))"

definition JSON_stringify :: "EventData list \<Rightarrow> cookie_text" where
  "JSON_stringify q = Stringified (JArr (map event_json q))"

text \<open>
  Reading the parsed value as event records. A value that is not an array of event
  records has no counterpart among the records of this model and gives \<open>None\<close>.
\<close>

definition json_string :: "json \<Rightarrow> string option" where
  "json_string j = (case j of JStr x \<Rightarrow> Some x | _ \<Rightarrow> None)"

definition json_int :: "json \<Rightarrow> int option" where
  "json_int j = (case j of JNum x \<Rightarrow> Some x | _ \<Rightarrow> None)"

definition json_hash :: "json \<Rightarrow> ApphudHash option" where
  "json_hash j = (case j of JObj kvs \<Rightarrow> Some (json_members kvs) | _ \<Rightarrow> None)"

definition json_optional :: "(string \<times> json) list \<Rightarrow> string \<Rightarrow> string option option" where
  "json_optional kvs k =
     (case map_of kvs k of None \<Rightarrow> Some None | Some j \<Rightarrow> map_option Some (json_string j))"

definition json_event :: "json \<Rightarrow> EventData option" where
  "json_event j =
     (case j of
        JObj kvs \<Rightarrow>
          (case (Option.bind (map_of kvs ''name'') json_string,
                 Option.bind (map_of kvs ''properties'') json_hash,
                 Option.bind (map_of kvs ''user_properties'') json_hash,
                 Option.bind (map_of kvs ''timestamp'') json_int,
                 Option.bind (map_of kvs ''insert_id'') json_string,
                 json_optional kvs ''user_id'',
                 json_optional kvs ''device_id'',
                 json_optional kvs ''id'') of
             (Some n, Some p, Some up, Some ts, Some ins, Some u, Some d, Some i) \<Rightarrow>
               Some \<lparr>event_name = n, event_properties = p, user_properties = up,
                      timestamp = ts, insert_id = ins, user_id = u, device_id = d,
                      event_id = i\<rparr>
           | _ \<Rightarrow> None)
      | _ \<Rightarrow> None)"

definition JSON_parse :: "cookie_text \<Rightarrow> EventData list option" where
  "JSON_parse text =
     (case text of
        Stringified (JArr js) \<Rightarrow> those (map json_event js)
      | _ \<Rightarrow> None)"

subsection \<open>The backlog\<close>

text \<open>
  The closures that the tracker hands to \<open>ready\<close>: the one built by \<open>track\<close> and the one
  built by \<open>trackEvent\<close>, each for one event object.
\<close>

datatype task = TrackCallback nat | TrackEventCallback nat

text \<open>What the tracker does to the outside, in the order in which it does it.\<close>

datatype effect =
    CookieWritten cookie_key cookie_text nat
  | SetTimeout nat nat
  | CreateEvent Events
  | InitializeApp bool

text \<open>
  The fields of \<open>ApphudSDK\<close> that the tracker reads and writes. Event objects are shared
  between the backlog, the timers and the requests, so they live in a store \<open>objects\<close>
  and are named by their address; \<open>eventQueue\<close> holds addresses. \<open>gate_open\<close> and
  \<open>deferred\<close> are \<open>isReady\<close> and \<open>queue\<close> as this component sees them.
\<close>

record tracker =
  gate_open :: bool
  deferred :: "task list"
  objects :: "nat \<Rightarrow> EventData"
  next_object :: nat
  eventQueue :: "nat list"
  jar :: "cookie_text cookie_jar"
  effects :: "effect list"

text \<open>\<open>getUserID\<close>: the cookie, when it is there and not the empty string.\<close>

definition getUserID :: "tracker \<Rightarrow> string option" where
  "getUserID t =
     (case getCookie UserIdKey (jar t) of
        Some (Plain uid) \<Rightarrow> if uid \<noteq> [] then Some uid else None
      | _ \<Rightarrow> None)"

text \<open>\<open>canStringify\<close> is a constant of the module \<open>utils\<close>; it is a parameter here.\<close>

definition saveEventQueue :: "bool \<Rightarrow> tracker \<Rightarrow> tracker" where
  "saveEventQueue canStringify t =
     (if canStringify then
        (let text = JSON_stringify (map (objects t) (eventQueue t))
         in t\<lparr>jar := setCookie EventsKey text 1 (jar t),
              effects := effects t @ [CookieWritten EventsKey text 1]\<rparr>)
      else t)"

text \<open>
  \<open>eventData(event)\<close> builds the request body and then deletes \<open>device_id\<close> and
  \<open>user_id\<close> from the event object itself, which the body and the backlog share.
\<close>

definition eventData :: "nat \<Rightarrow> tracker \<Rightarrow> Events \<times> tracker" where
  "eventData r t =
     (let e = objects t r;
          stripped = e\<lparr>user_id := None, device_id := None\<rparr>
      in (Events [stripped] (device_id e) (user_id e),
          t\<lparr>objects := (objects t)(r := stripped)\<rparr>))"

fun run_task :: "bool \<Rightarrow> task \<Rightarrow> tracker \<Rightarrow> tracker" where
  "run_task canStringify (TrackCallback r) t =
     (let t1 = t\<lparr>objects := (objects t)(r := (objects t r)\<lparr>user_id := getUserID t,
                                                           device_id := getUserID t\<rparr>)\<rparr>;
          t2 = t1\<lparr>eventQueue := eventQueue t1 @ [r]\<rparr>;
          t3 = saveEventQueue canStringify t2
      in t3\<lparr>effects := effects t3 @ [SetTimeout 1000 r]\<rparr>)"
| "run_task canStringify (TrackEventCallback r) t =
     (case eventData r t of
        (data, t1) \<Rightarrow> t1\<lparr>effects := effects t1 @ [CreateEvent data]\<rparr>)"

definition ready_task :: "bool \<Rightarrow> task \<Rightarrow> tracker \<Rightarrow> tracker" where
  "ready_task canStringify task t =
     (if gate_open t then run_task canStringify task t
      else t\<lparr>deferred := deferred t @ [task]\<rparr>)"

text \<open>
  \<open>track(name, properties, userProperties)\<close>, the two bags being \<open>props\<close> and
  \<open>userProps\<close>. The time stamp and the insertion id come
  from \<open>u.timestamp()\<close> and \<open>u.generateId()\<close>; they are arguments here. A missing property
  bag is replaced by the empty one.
\<close>

definition track ::
  "bool \<Rightarrow> string \<Rightarrow> ApphudHash option \<Rightarrow> ApphudHash option \<Rightarrow> int \<Rightarrow> string \<Rightarrow> tracker
     \<Rightarrow> bool \<times> tracker" where
  "track canStringify name props userProps now fresh t =
     (let event = \<lparr>event_name = name,
                   event_properties = (case props of None \<Rightarrow> [] | Some h \<Rightarrow> h),
                   user_properties = (case userProps of None \<Rightarrow> [] | Some h \<Rightarrow> h),
                   timestamp = now, insert_id = fresh,
                   user_id = None, device_id = None, event_id = None\<rparr>;
          r = next_object t;
          t1 = t\<lparr>objects := (objects t)(r := event), next_object := r + 1\<rparr>
      in (True, ready_task canStringify (TrackCallback r) t1))"

definition trackEvent :: "bool \<Rightarrow> nat \<Rightarrow> tracker \<Rightarrow> tracker" where
  "trackEvent canStringify r t = ready_task canStringify (TrackEventCallback r) t"

text \<open>The timer set by the callback of \<open>track\<close> fires: \<open>this.trackEvent(event)\<close>.\<close>

definition timeout_fired :: "bool \<Rightarrow> nat \<Rightarrow> tracker \<Rightarrow> tracker" where
  "timeout_fired canStringify r t = trackEvent canStringify r t"

text \<open>
  The loop of the success handler: the first record whose \<open>id\<close> is strictly equal to the
  \<open>id\<close> of the delivered event is spliced out. Two missing \<open>id\<close>s are both \<open>undefined\<close>,
  and \<open>undefined === undefined\<close> holds.
\<close>

fun remove_delivered :: "(nat \<Rightarrow> EventData) \<Rightarrow> nat \<Rightarrow> nat list \<Rightarrow> nat list" where
  "remove_delivered objs r [] = []"
| "remove_delivered objs r (x # xs) =
     (if event_id (objs x) = event_id (objs r) then xs
      else x # remove_delivered objs r xs)"

text \<open>
  The handler that runs when \<open>api.createEvent\<close> succeeds for the event at address \<open>r\<close>.
  Of \<open>initializeApp(false)\<close> the part that runs at once is kept: \<open>createUser\<close> closes the
  gate; the rest waits for the network.
\<close>

definition event_created :: "bool \<Rightarrow> nat \<Rightarrow> tracker \<Rightarrow> tracker" where
  "event_created canStringify r t =
     (let t1 = t\<lparr>eventQueue := remove_delivered (objects t) r (eventQueue t)\<rparr>;
          t2 = saveEventQueue canStringify t1
      in t2\<lparr>gate_open := False, effects := effects t2 @ [InitializeApp False]\<rparr>)"

text \<open>
  The drain of \<open>setReady\<close> for the tracker's closures. None of them calls \<open>ready\<close> while it
  runs, so the loop is one pass over the queue.
\<close>

fun run_tasks :: "bool \<Rightarrow> task list \<Rightarrow> tracker \<Rightarrow> tracker" where
  "run_tasks canStringify [] t = t"
| "run_tasks canStringify (x # xs) t = run_tasks canStringify xs (run_task canStringify x t)"

definition tracker_setReady :: "bool \<Rightarrow> tracker \<Rightarrow> tracker" where
  "tracker_setReady canStringify t =
     (run_tasks canStringify (deferred t) (t\<lparr>deferred := []\<rparr>))\<lparr>gate_open := True\<rparr>"

text \<open>
  The part of \<open>init\<close> that recovers the backlog: parse the cookie, or \<open>[]\<close> when there is
  none, and hand every record to \<open>trackEvent\<close>. A syntax error is caught and logged.
\<close>

fun store_all :: "EventData list \<Rightarrow> tracker \<Rightarrow> tracker" where
  "store_all [] t = t"
| "store_all (e # es) t =
     store_all es (t\<lparr>objects := (objects t)(next_object t := e),
                     next_object := next_object t + 1,
                     eventQueue := eventQueue t @ [next_object t]\<rparr>)"

fun trackEvent_all :: "bool \<Rightarrow> nat list \<Rightarrow> tracker \<Rightarrow> tracker" where
  "trackEvent_all canStringify [] t = t"
| "trackEvent_all canStringify (r # rs) t =
     trackEvent_all canStringify rs (trackEvent canStringify r t)"

definition init_backlog :: "bool \<Rightarrow> tracker \<Rightarrow> tracker" where
  "init_backlog canStringify t =
     (case (case getCookie EventsKey (jar t) of
              None \<Rightarrow> Some []
            | Some text \<Rightarrow> JSON_parse text) of
        None \<Rightarrow> t
      | Some es \<Rightarrow>
          (let t1 = store_all es (t\<lparr>eventQueue := []\<rparr>)
           in trackEvent_all canStringify (eventQueue t1) t1))"

definition new_tracker :: tracker where
  "new_tracker =
     \<lparr>gate_open = False, deferred = [],
      objects = (\<lambda>_. \<lparr>event_name = [], event_properties = [], user_properties = [],
                      timestamp = 0, insert_id = [], user_id = None, device_id = None,
                      event_id = None\<rparr>),
      next_object = 0, eventQueue = [], jar = Map.empty, effects = []\<rparr>"

section \<open>Stripe payment form\<close>

record Subscription =
  client_secret :: "string option"
  deep_link :: "string option"

text \<open>The submit control, as far as the form touches it.\<close>

record button =
  disabled :: bool
  innerText :: string

record PaymentProviderFormOptions =
  successUrl :: "string option"

text \<open>The values read from \<open>config\<close>; they are parameters of the model.\<close>

record form_config =
  baseSuccessURL :: string
  redirectDelay :: nat

text \<open>The error object that the provider returns from a confirmation.\<close>

datatype stripe_error = StripeError (message: "string option")

datatype failure = ConfirmationFailed stripe_error | SubscriptionFailed

datatype lifecycle =
    payment_form_initialized
  | payment_form_ready
  | payment_failure failure
  | payment_success string

datatype button_state = loading | ready_state | processing

text \<open>What a timer does when it fires.\<close>

datatype deferred_action = Navigate string

datatype form_effect =
    Emit lifecycle
  | PreventDefault
  | CreateSubscription string string "string option" "string option" string
  | ElementsSubmit
  | ConfirmPayment "string option" string
  | FormCookieWritten cookie_key string nat
  | FormTimeout nat deferred_action
  | Mount

text \<open>
  The fields of \<open>StripeForm\<close> and the page elements that it reads. \<open>stripe\<close>, \<open>elements\<close>
  and \<open>paymentElement\<close> say whether the field holds an object. \<open>submit\<close> is the button
  that \<open>show\<close> found. \<open>error_message\<close> and \<open>card_errors\<close> are the text of the elements
  \<open>#error-message\<close> and \<open>#card-errors\<close>, \<open>None\<close> when the page has no such element.
  \<open>form_user_id\<close> is \<open>this.user.id\<close>, \<open>submit_listeners\<close> counts the handlers added to the
  form.
\<close>

record StripeForm =
  stripe :: bool
  elements :: bool
  paymentElement :: bool
  subscription :: "Subscription option"
  submit :: "button option"
  submitReadyText :: string
  submitProcessingText :: string
  form_user_id :: string
  providerId :: string
  error_message :: "string option"
  card_errors :: "string option"
  submit_listeners :: nat
  form_cookies :: "string cookie_jar"
  form_effects :: "form_effect list"

definition emit :: "lifecycle \<Rightarrow> StripeForm \<Rightarrow> StripeForm" where
  "emit ev f = f\<lparr>form_effects := form_effects f @ [Emit ev]\<rparr>"

definition setButtonState :: "button_state \<Rightarrow> StripeForm \<Rightarrow> StripeForm" where
  "setButtonState state f =
     (case submit f of
        None \<Rightarrow> f
      | Some b \<Rightarrow>
          (case state of
             loading \<Rightarrow> f\<lparr>submit := Some (b\<lparr>disabled := True\<rparr>)\<rparr>
           | ready_state \<Rightarrow>
               f\<lparr>submit := Some (b\<lparr>disabled := False, innerText := submitReadyText f\<rparr>)\<rparr>
           | processing \<Rightarrow>
               f\<lparr>submit := Some (b\<lparr>disabled := True, innerText := submitProcessingText f\<rparr>)\<rparr>))"

text \<open>A string value in a condition: \<open>undefined\<close> and the empty string are falsy.\<close>

definition truthy :: "string option \<Rightarrow> bool" where
  "truthy v = (case v of None \<Rightarrow> False | Some x \<Rightarrow> x \<noteq> [])"

text \<open>
  A string value used as a string; spliced into a longer string, \<open>undefined\<close> prints as
  its name.
\<close>

definition to_text :: "string option \<Rightarrow> string" where
  "to_text v = (case v of None \<Rightarrow> ''undefined'' | Some x \<Rightarrow> x)"

text \<open>
  The address that the timer of the success branch navigates to. The timer reads the
  options and the configuration when it fires; they are taken as they are when it is set.
\<close>

definition redirect_target ::
  "form_config \<Rightarrow> PaymentProviderFormOptions option \<Rightarrow> string option \<Rightarrow> string" where
  "redirect_target cfg options deepLink =
     (let url = (case options of None \<Rightarrow> None | Some opts \<Rightarrow> successUrl opts)
      in if truthy url \<and> url \<noteq> Some ''undefined'' then to_text url
         else baseSuccessURL cfg @ ''/'' @ to_text deepLink)"

text \<open>
  The outcome of \<open>api.createSubscription\<close>: the request is rejected, or it resolves to a
  subscription or to nothing.
\<close>

datatype api_result = Rejected | Resolved "Subscription option"

definition initStripe :: "StripeForm \<Rightarrow> StripeForm" where
  "initStripe f = (if \<not> stripe f then f else f\<lparr>elements := True, paymentElement := True\<rparr>)"

definition setupForm :: "bool \<Rightarrow> StripeForm \<Rightarrow> StripeForm" where
  "setupForm form_present f =
     (if \<not> form_present then f else f\<lparr>submit_listeners := submit_listeners f + 1\<rparr>)"

text \<open>
  \<open>show(productId, paywallId, placementId, options)\<close>. \<open>submitButton\<close> is what the page
  holds under \<open>#submit\<close>, \<open>form_present\<close> says whether it holds the form container, and
  \<open>created\<close> is the outcome of the subscription request.
\<close>

definition "show" ::
  "string \<Rightarrow> string option \<Rightarrow> string option \<Rightarrow> button option \<Rightarrow> bool \<Rightarrow> api_result
     \<Rightarrow> StripeForm \<Rightarrow> StripeForm" where
  "show productId paywallId placementId submitButton form_present created f =
     (let f1 = emit payment_form_initialized f
      in case submitButton of
           None \<Rightarrow> f1
         | Some b \<Rightarrow>
             (let f2 = setButtonState loading (f1\<lparr>submit := Some b\<rparr>);
                  f3 = (if innerText b \<noteq> [] then f2\<lparr>submitReadyText := innerText b\<rparr> else f2);
                  f4 = f3\<lparr>form_effects := form_effects f3 @
                          [CreateSubscription (providerId f3) productId paywallId placementId
                             (form_user_id f3)]\<rparr>;
                  f5 = (case created of
                          Rejected \<Rightarrow> f4
                        | Resolved sub \<Rightarrow> f4\<lparr>subscription := sub\<rparr>)
              in if created = Rejected \<or> created = Resolved None then
                   (let f6 = setButtonState ready_state f5;
                        f7 = (case error_message f6 of
                                None \<Rightarrow> f6
                              | Some _ \<Rightarrow>
                                  f6\<lparr>error_message :=
                                       Some ''Failed to initialize payment form. Please try again.''\<rparr>)
                    in emit (payment_failure SubscriptionFailed) f7)
                 else
                   (let f6 = initStripe f5
                    in if \<not> paymentElement f6 then f6
                       else if subscription f6 = None then f6
                       else (let f7 = setupForm form_present f6
                             in f7\<lparr>form_effects := form_effects f7 @ [Mount]\<rparr>))))"

text \<open>
  The handlers of the payment element for \<open>ready\<close> and \<open>loaderror\<close>. The argument of
  the second is the event, when there is one, with its \<open>error\<close>, when it has one.
\<close>

definition paymentElement_ready :: "StripeForm \<Rightarrow> StripeForm" where
  "paymentElement_ready f = emit payment_form_ready (setButtonState ready_state f)"

definition paymentElement_loaderror ::
  "stripe_error option option \<Rightarrow> StripeForm \<Rightarrow> StripeForm" where
  "paymentElement_loaderror event f =
     (let f1 = setButtonState ready_state f
      in case card_errors f1 of
           None \<Rightarrow> f1
         | Some _ \<Rightarrow>
             (case event of
                None \<Rightarrow> f1
              | Some err \<Rightarrow>
                  f1\<lparr>card_errors :=
                       Some (case err of
                               None \<Rightarrow> []
                             | Some e \<Rightarrow>
                                 if truthy (message e) then to_text (message e) else [])\<rparr>))"

text \<open>
  The handler of the form's \<open>submit\<close> event. \<open>href\<close> is \<open>document.location.href\<close> and
  \<open>confirmation\<close> is the \<open>error\<close> of the object that \<open>confirmPayment\<close> resolves to. Reading
  \<open>client_secret\<close> of a missing subscription raises.
\<close>

definition submit_handler ::
  "constants \<Rightarrow> form_config \<Rightarrow> PaymentProviderFormOptions option \<Rightarrow> string
     \<Rightarrow> stripe_error option \<Rightarrow> StripeForm \<Rightarrow> error + StripeForm" where
  "submit_handler K cfg options href confirmation f =
     (let f1 = setButtonState processing (f\<lparr>form_effects := form_effects f @ [PreventDefault]\<rparr>)
      in if \<not> stripe f1 then Inr f1
         else if \<not> elements f1 then Inr f1
         else
           (let f2 = f1\<lparr>form_effects := form_effects f1 @ [ElementsSubmit]\<rparr>
            in case subscription f2 of
                 None \<Rightarrow> Inl TypeError
               | Some sub \<Rightarrow>
                   (let f3 = f2\<lparr>form_effects := form_effects f2 @
                                  [ConfirmPayment (client_secret sub) href]\<rparr>
                    in case confirmation of
                         Some err \<Rightarrow>
                           (let f4 = emit (payment_failure (ConfirmationFailed err)) f3;
                                f5 = (case error_message f4 of
                                        None \<Rightarrow> f4
                                      | Some _ \<Rightarrow>
                                          f4\<lparr>error_message :=
                                               Some (if truthy (message err)
                                                     then to_text (message err)
                                                     else [])\<rparr>)
                            in Inr (setButtonState ready_state f5))
                       | None \<Rightarrow>
                           (let f4 = emit (payment_success (form_user_id f3)) f3;
                                deepLink = deep_link sub;
                                f5 = (if truthy deepLink then
                                        f4\<lparr>form_cookies :=
                                             setCookie DeepLinkURL (to_text deepLink)
                                               (SelectedProductDuration K) (form_cookies f4),
                                           form_effects := form_effects f4 @
                                             [FormCookieWritten DeepLinkURL (to_text deepLink)
                                                (SelectedProductDuration K)]\<rparr>
                                      else f4)
                            in Inr (f5\<lparr>form_effects := form_effects f5 @
                                         [FormTimeout (redirectDelay cfg)
                                            (Navigate (redirect_target cfg options deepLink))]\<rparr>)))))"

section \<open>Invariants and example data\<close>

text \<open>
  The invariant of the gate between two calls from outside: what was submitted is what has
  run followed by what waits, nothing waits behind an open gate, and no waiting callback
  throws.
\<close>

definition gate_inv :: "gate \<Rightarrow> bool" where
  "gate_inv s =
     (submitted s = executed s @ map cid (queue s) \<and> (isReady s \<longrightarrow> queue s = []) \<and>
      list_all no_throw (queue s))"

definition pending_ids :: "gate \<Rightarrow> nat multiset" where
  "pending_ids s = mset (executed s) + mset (concat (map all_ids (queue s)))"

text \<open>
  The values that JSON represents exactly: no \<open>undefined\<close>, no \<open>NaN\<close> and no date,
  at any depth. An event is exact when both of its bags hold such values only.
\<close>

fun json_exact :: "jsvalue \<Rightarrow> bool"
  and exact_elements :: "jsvalue list \<Rightarrow> bool"
  and exact_members :: "(string \<times> jsvalue) list \<Rightarrow> bool" where
  "json_exact VUndefined = False"
| "json_exact VNull = True"
| "json_exact (VBool b) = True"
| "json_exact (VNumber n) = (n \<noteq> NaN)"
| "json_exact (VString x) = True"
| "json_exact (VDate d) = False"
| "json_exact (VArray xs) = exact_elements xs"
| "json_exact (VObject kvs) = exact_members kvs"
| "exact_elements [] = True"
| "exact_elements (x # xs) = (json_exact x \<and> exact_elements xs)"
| "exact_members [] = True"
| "exact_members ((k, v) # kvs) = (json_exact v \<and> exact_members kvs)"

definition exact_event :: "EventData \<Rightarrow> bool" where
  "exact_event e = (exact_members (event_properties e) \<and> exact_members (user_properties e))"

text \<open>A session with two placements, the first with two products.\<close>

definition product_a :: Product where
  "product_a = \<lparr>base_plan_id = ''weekly'',
                 properties = Some (PObj [(''price'', PObj [(''amount'', PStr ''4.99'')])])\<rparr>"

definition product_b :: Product where
  "product_b = \<lparr>base_plan_id = ''yearly'',
                 properties = Some (PObj [(''price'', PObj [(''amount'', PStr ''49.99'')])])\<rparr>"

definition paywall_main :: Paywall where
  "paywall_main = \<lparr>paywall_id = ''pw1'', items = [product_a, product_b]\<rparr>"

definition placement_main :: Placement where
  "placement_main = \<lparr>placement_id = ''pl1'', identifier_p = ''main'', paywalls = [paywall_main]\<rparr>"

definition product_c :: Product where
  "product_c = \<lparr>base_plan_id = ''monthly'', properties = None\<rparr>"

definition paywall_promo :: Paywall where
  "paywall_promo = \<lparr>paywall_id = ''pw2'', items = [product_c]\<rparr>"

definition placement_promo :: Placement where
  "placement_promo =
     \<lparr>placement_id = ''pl2'', identifier_p = ''promo'', paywalls = [paywall_promo]\<rparr>"

definition placement_bare :: Placement where
  "placement_bare = \<lparr>placement_id = ''pl3'', identifier_p = ''bare'', paywalls = []\<rparr>"

definition session :: "Placement list \<Rightarrow> selection" where
  "session ps = \<lparr>placements = ps, priv_currentPlacement = None, priv_currentPaywall = None,
                  priv_currentProduct = None, cookies = Map.empty, emitted = []\<rparr>"

definition days30 :: constants where
  "days30 = \<lparr>SelectedProductDuration = 30\<rparr>"

definition selected_main_1 :: selection where
  "selected_main_1 = selectPlacementProduct days30 ''main'' (Num 1) (session [placement_main])"

text \<open>
  A tracker behind an open gate after two calls of \<open>track\<close>, and the same tracker after
  both timers have fired and the ingestion call for the second event has succeeded.
\<close>

definition tracked :: tracker where
  "tracked = snd (track True ''purchase'' None None 2000 ''id-2''
                 (snd (track True ''view'' (Some [(''page'', VString ''home'')]) None 1000 ''id-1''
                    (new_tracker\<lparr>gate_open := True,
                                  jar := setCookie UserIdKey (Plain ''u-7'') 730 Map.empty\<rparr>))))"

definition second_delivered :: tracker where
  "second_delivered =
     event_created True 1 (timeout_fired True 1 (timeout_fired True 0 tracked))"

text \<open>Kinds of effects of the payment form, for counting them.\<close>

fun is_success :: "form_effect \<Rightarrow> bool" where
  "is_success (Emit (payment_success _)) = True"
| "is_success _ = False"

fun is_failure :: "form_effect \<Rightarrow> bool" where
  "is_failure (Emit (payment_failure _)) = True"
| "is_failure _ = False"

fun is_navigation :: "form_effect \<Rightarrow> bool" where
  "is_navigation (FormTimeout _ (Navigate _)) = True"
| "is_navigation _ = False"

fun is_create :: "form_effect \<Rightarrow> bool" where
  "is_create (CreateSubscription _ _ _ _ _) = True"
| "is_create _ = False"

text \<open>
  A form whose provider library has loaded, on a page with an error surface; the same
  form after \<open>show\<close> has created a subscription and the payment element has reported
  that it is ready.
\<close>

definition new_form :: StripeForm where
  "new_form =
     \<lparr>stripe = True, elements = False, paymentElement = False, subscription = None,
      submit = None, submitReadyText = ''Subscribe'', submitProcessingText = ''Please wait...'',
      form_user_id = ''u-7'', providerId = ''prov-1'', error_message = Some [],
      card_errors = None, submit_listeners = 0, form_cookies = Map.empty, form_effects = []\<rparr>"

definition shown_form :: StripeForm where
  "shown_form =
     paymentElement_ready
       (show ''price_1'' (Some ''pw1'') (Some ''pl1'')
          (Some \<lparr>disabled = False, innerText = ''Pay now''\<rparr>) True
          (Resolved (Some \<lparr>client_secret = Some ''cs_1'', deep_link = Some ''app://done''\<rparr>))
          new_form)"

definition site :: form_config where
  "site = \<lparr>baseSuccessURL = ''https://example.org/success'', redirectDelay = 500\<rparr>"

section \<open>Readiness gate: proofs\<close>

lemma ready_invoke_run_body_ok:
  "gate_inv s \<Longrightarrow> no_throw c \<Longrightarrow>
     fst (ready c s) = Returned \<and> gate_inv (snd (ready c s)) \<and>
     isReady (snd (ready c s)) = isReady s \<and>
     pending_ids (snd (ready c s)) = pending_ids s + mset (all_ids c)"
  "submitted s = executed s @ cid c # map cid (queue s) \<Longrightarrow> (isReady s \<longrightarrow> queue s = []) \<Longrightarrow>
     list_all no_throw (queue s) \<Longrightarrow> no_throw c \<Longrightarrow>
     fst (invoke c s) = Returned \<and> gate_inv (snd (invoke c s)) \<and>
     isReady (snd (invoke c s)) = isReady s \<and>
     pending_ids (snd (invoke c s)) = pending_ids s + mset (all_ids c)"
  "gate_inv s \<Longrightarrow> no_throw_body b \<Longrightarrow>
     fst (run_body b s) = Returned \<and> gate_inv (snd (run_body b s)) \<and>
     isReady (snd (run_body b s)) = isReady s \<and>
     pending_ids (snd (run_body b s)) = pending_ids s + mset (body_ids b)"
proof (induction c s and c s and b s rule: ready_invoke_run_body.induct)
  case (1 c s)
  show ?case
  proof (cases "isReady s")
    case True
    with 1 show ?thesis by (auto simp: gate_inv_def pending_ids_def Let_def)
  next
    case False
    with 1 show ?thesis by (cases c) (auto simp: gate_inv_def pending_ids_def Let_def)
  qed
next
  case (2 n b s)
  then show ?case by (auto simp: gate_inv_def pending_ids_def)
next
  case (3 s)
  then show ?case by simp
next
  case (4 rest s)
  then show ?case by simp
next
  case (5 c rest s)
  then show ?case
    by (cases "ready c s") (auto simp: ac_simps)
qed

lemma drain_ok:
  "gate_inv s \<Longrightarrow>
     fst (drain s) = Returned \<and> gate_inv (snd (drain s)) \<and> queue (snd (drain s)) = [] \<and>
     isReady (snd (drain s)) = isReady s \<and> pending_ids (snd (drain s)) = pending_ids s"
proof (induction s rule: drain.induct)
  case (1 s)
  show ?case
  proof (cases "queue s")
    case Nil
    with 1(2) show ?thesis by simp
  next
    case (Cons c q)
    let ?s0 = "s\<lparr>queue := q\<rparr>"
    from 1(2) Cons have pre:
      "submitted ?s0 = executed ?s0 @ cid c # map cid (queue ?s0)"
      "isReady ?s0 \<longrightarrow> queue ?s0 = []" "list_all no_throw (queue ?s0)" "no_throw c"
      by (auto simp: gate_inv_def)
    note inv = ready_invoke_run_body_ok(2)[OF pre]
    obtain o1 s1 where r: "invoke c ?s0 = (o1, s1)" by (cases "invoke c ?s0")
    with inv have o1: "o1 = Returned" and g1: "gate_inv s1"
      and rd: "isReady s1 = isReady s"
      and pd: "pending_ids s1 = pending_ids ?s0 + mset (all_ids c)" by auto
    from 1(1)[OF Cons r[symmetric] o1 g1]
    have ih: "fst (drain s1) = Returned \<and> gate_inv (snd (drain s1)) \<and>
        queue (snd (drain s1)) = [] \<and> isReady (snd (drain s1)) = isReady s1 \<and>
        pending_ids (snd (drain s1)) = pending_ids s1" .
    have d: "drain s = drain s1"
      using Cons r o1 by (subst drain.simps) simp
    have "pending_ids ?s0 + mset (all_ids c) = pending_ids s"
      using Cons by (simp add: pending_ids_def)
    with ih d rd pd show ?thesis by simp
  qed
qed

lemma setReady_ok:
  "gate_inv s \<Longrightarrow>
     fst (setReady i s) = Returned \<and> gate_inv (snd (setReady i s)) \<and>
     queue (snd (setReady i s)) = [] \<and> isReady (snd (setReady i s)) \<and>
     pending_ids (snd (setReady i s)) = pending_ids s"
  using drain_ok[of s]
  by (cases "drain s") (auto simp: setReady_def gate_inv_def pending_ids_def Let_def)

lemma run_calls_ok:
  "gate_inv s \<Longrightarrow> list_all no_throw (submitted_callbacks calls) \<Longrightarrow>
     gate_inv (run_calls calls s) \<and>
     pending_ids (run_calls calls s) =
       pending_ids s + mset (concat (map all_ids (submitted_callbacks calls))) \<and>
     (isReady s \<or> (\<exists>i. SetReady i \<in> set calls) \<longrightarrow> isReady (run_calls calls s))"
proof (induction calls arbitrary: s)
  case Nil
  then show ?case by simp
next
  case (Cons x calls)
  show ?case
  proof (cases x)
    case (Ready c)
    with Cons.prems have c: "no_throw c" and rest: "list_all no_throw (submitted_callbacks calls)"
      by simp_all
    note st = ready_invoke_run_body_ok(1)[OF Cons.prems(1) c]
    from Cons.IH[OF _ rest, of "snd (ready c s)"] st Ready
    show ?thesis by (auto simp: ac_simps)
  next
    case (SetReady i)
    with Cons.prems have rest: "list_all no_throw (submitted_callbacks calls)" by simp
    note st = setReady_ok[OF Cons.prems(1), of i]
    from Cons.IH[OF _ rest, of "snd (setReady i s)"] st SetReady
    show ?thesis by auto
  qed
qed

text \<open>
  C1, as stated, fails: it speaks of every sequence of calls, and a callback may throw.
  Three callbacks are queued, the second hands a fourth to \<open>ready\<close> and throws;
  \<open>setReady\<close> is called, then a fifth callback is submitted. The third callback, queued
  before \<open>setReady\<close>, has not run, the fourth has not run in that drain, and the fifth
  is queued behind a gate that is still closed.
\<close>

theorem ready_throw_counterexample:
  "run_calls [Ready (Callback 1 []), Ready (Callback 2 [CallReady (Callback 4 []), Throw]),
              Ready (Callback 3 []), SetReady False, Ready (Callback 5 [])] new_gate =
     \<lparr>isReady = False, queue = [Callback 3 [], Callback 4 [], Callback 5 []], readyEmitted = 0,
      submitted = [1, 2, 3, 4, 5], executed = [1, 2]\<rparr>"
  by (simp add: new_gate_def setReady_def)

text \<open>
  C1, as amended. Take any sequence of calls of \<open>ready\<close> and \<open>setReady\<close> on a new gate,
  with callbacks that return normally, none of them throwing (they may call \<open>ready\<close>
  again, to any depth). At the end, the callbacks submitted are those that have run, in
  the same order, followed by those still queued; every callback of every submitted tree
  has run or waits, as often as it occurs.
  Once \<open>setReady\<close> has been called the queue is empty: the order of execution is the order
  of submission, and every callback, also one handed to \<open>ready\<close> from inside a draining
  callback, has run exactly once. With \<open>setReady\<close> as the last call this says that the
  drain itself ran the callbacks submitted during the drain.
\<close>

theorem ready_callbacks_once_in_order:
  assumes "list_all no_throw (submitted_callbacks calls)"
  shows "submitted (run_calls calls new_gate) =
           executed (run_calls calls new_gate) @ map cid (queue (run_calls calls new_gate)) \<and>
         mset (executed (run_calls calls new_gate)) +
           mset (concat (map all_ids (queue (run_calls calls new_gate)))) =
           mset (concat (map all_ids (submitted_callbacks calls))) \<and>
         ((\<exists>i. SetReady i \<in> set calls) \<longrightarrow>
            isReady (run_calls calls new_gate) \<and> queue (run_calls calls new_gate) = [] \<and>
            executed (run_calls calls new_gate) = submitted (run_calls calls new_gate) \<and>
            mset (executed (run_calls calls new_gate)) =
              mset (concat (map all_ids (submitted_callbacks calls))))"
proof -
  have g: "gate_inv new_gate" by (simp add: gate_inv_def new_gate_def)
  have p: "pending_ids new_gate = {#}" by (simp add: pending_ids_def new_gate_def)
  from run_calls_ok[OF g assms] p show ?thesis
    by (auto simp: gate_inv_def pending_ids_def)
qed

theorem ready_callbacks_once_in_order_witness:
  "list_all no_throw (submitted_callbacks
      [Ready (Callback 1 [CallReady (Callback 3 [])]), Ready (Callback 2 []), SetReady True]) \<and>
   executed (run_calls
      [Ready (Callback 1 [CallReady (Callback 3 [])]), Ready (Callback 2 []), SetReady True]
      new_gate) = [1, 2, 3] \<and>
   submitted (run_calls
      [Ready (Callback 1 [CallReady (Callback 3 [])]), Ready (Callback 2 []), SetReady True]
      new_gate) = [1, 2, 3] \<and>
   queue (run_calls
      [Ready (Callback 1 [CallReady (Callback 3 [])]), Ready (Callback 2 []), SetReady True]
      new_gate) = []"
  using ready_callbacks_once_in_order
    [of "[Ready (Callback 1 [CallReady (Callback 3 [])]), Ready (Callback 2 []), SetReady True]"]
  by (simp add: new_gate_def setReady_def)

subsection \<open>A callback that throws\<close>

text \<open>Behind a closed gate a callback only appends to the queue until it throws or ends.\<close>

lemma run_body_closed:
  "\<not> isReady s \<Longrightarrow>
   run_body b s = (if Throw \<in> set b then Thrown else Returned,
                   s\<lparr>submitted := submitted s @ map cid (handed_over b),
                     queue := queue s @ handed_over b\<rparr>)"
proof (induction b arbitrary: s)
  case Nil
  then show ?case by simp
next
  case (Cons x b)
  show ?case
  proof (cases x)
    case (CallReady c)
    with Cons show ?thesis by (simp add: Let_def)
  next
    case Throw
    then show ?thesis by simp
  qed
qed

lemma drain_stops_at_throw:
  "\<not> isReady s \<Longrightarrow> queue s = before @ c # behind \<Longrightarrow>
   \<forall>a\<in>set before. Throw \<notin> set (body a) \<Longrightarrow> Throw \<in> set (body c) \<Longrightarrow>
   drain s =
     (Thrown,
      s\<lparr>queue := behind @ concat (map (\<lambda>a. handed_over (body a)) before) @ handed_over (body c),
        executed := executed s @ map cid before @ [cid c],
        submitted := submitted s @
           map cid (concat (map (\<lambda>a. handed_over (body a)) before) @ handed_over (body c))\<rparr>)"
proof (induction before arbitrary: s behind)
  case Nil
  then show ?case
    by (cases c) (simp add: drain.simps[of s] run_body_closed del: drain.simps)
next
  case (Cons a before)
  obtain n b where a: "a = Callback n b" by (cases a)
  let ?s1 = "s\<lparr>queue := before @ c # behind @ handed_over b, executed := executed s @ [n],
               submitted := submitted s @ map cid (handed_over b)\<rparr>"
  have inv: "invoke a (s\<lparr>queue := before @ c # behind\<rparr>) = (Returned, ?s1)"
    using Cons.prems a by (simp add: run_body_closed)
  have step: "drain s = drain ?s1"
    using Cons.prems(2) inv by (subst drain.simps[of s]) (simp del: drain.simps)
  have "drain ?s1 = (Thrown,
      ?s1\<lparr>queue := (behind @ handed_over b) @
              concat (map (\<lambda>a. handed_over (body a)) before) @ handed_over (body c),
        executed := executed ?s1 @ map cid before @ [cid c],
        submitted := submitted ?s1 @
           map cid (concat (map (\<lambda>a. handed_over (body a)) before) @ handed_over (body c))\<rparr>)"
    by (rule Cons.IH) (use Cons.prems in simp_all)
  with step a show ?case by (simp del: drain.simps)
qed

text \<open>
  C4, as stated, fails: two callbacks are queued, the first throws, \<open>setReady\<close> is called.
  The second callback has not run afterwards; it is still in the queue, and the gate is
  still closed.
\<close>

theorem setReady_throw_counterexample:
  "run_calls [Ready (Callback 1 [Throw]), Ready (Callback 2 []), SetReady True] new_gate =
     \<lparr>isReady = False, queue = [Callback 2 []], readyEmitted = 0,
      submitted = [1, 2], executed = [1]\<rparr>"
  by (simp add: new_gate_def setReady_def)

text \<open>
  C4, as amended. During the drain of \<open>setReady\<close> on a closed gate, the first queued
  callback that throws ends the drain: the exception leaves \<open>setReady\<close>, the gate stays
  closed and no \<open>ready\<close> event is emitted. The callbacks queued before it have run. Those
  queued behind it have not run and are not dropped: they stay in the queue in their
  order, followed by the callbacks that were handed to \<open>ready\<close> during the drain.
\<close>

theorem setReady_stops_at_throw:
  assumes "\<not> isReady s"
    and "queue s = before @ c # behind"
    and "\<forall>a\<in>set before. Throw \<notin> set (body a)"
    and "Throw \<in> set (body c)"
  shows "setReady initial s =
     (Thrown,
      s\<lparr>queue := behind @ concat (map (\<lambda>a. handed_over (body a)) before) @ handed_over (body c),
        executed := executed s @ map cid before @ [cid c],
        submitted := submitted s @
           map cid (concat (map (\<lambda>a. handed_over (body a)) before) @ handed_over (body c))\<rparr>)"
  using drain_stops_at_throw[OF assms] by (simp add: setReady_def)

theorem setReady_stops_at_throw_witness:
  "\<not> isReady (new_gate\<lparr>queue := [Callback 1 [], Callback 2 [CallReady (Callback 9 []), Throw],
                                   Callback 3 []], submitted := [1, 2, 3]\<rparr>) \<and>
   list_all (\<lambda>a. Throw \<notin> set (body a)) [Callback 1 []] \<and>
   Throw \<in> set (body (Callback 2 [CallReady (Callback 9 []), Throw])) \<and>
   setReady True (new_gate\<lparr>queue := [Callback 1 [], Callback 2 [CallReady (Callback 9 []), Throw],
                                    Callback 3 []], submitted := [1, 2, 3]\<rparr>) =
     (Thrown, \<lparr>isReady = False, queue = [Callback 3 [], Callback 9 []], readyEmitted = 0,
               submitted = [1, 2, 3, 9], executed = [1, 2]\<rparr>)"
  using setReady_stops_at_throw
    [of "new_gate\<lparr>queue := [Callback 1 [], Callback 2 [CallReady (Callback 9 []), Throw],
                            Callback 3 []], submitted := [1, 2, 3]\<rparr>"
        "[Callback 1 []]" "Callback 2 [CallReady (Callback 9 []), Throw]" "[Callback 3 []]" True]
  by (simp add: new_gate_def)

section \<open>Selection state: proofs\<close>

lemma setCurrentItems_unknown:
  "findPlacementByID s (Some pid) = None \<Longrightarrow>
   setCurrentItems pid k s = s\<lparr>priv_currentPlacement := None\<rparr>"
  by (simp add: setCurrentItems_def)

lemma setCurrentItems_found:
  "findPlacementByID s (Some pid) = Some p \<Longrightarrow> paywalls p = w # ws \<Longrightarrow>
   setCurrentItems pid k s =
     s\<lparr>priv_currentPlacement := Some p, priv_currentPaywall := Some w,
       priv_currentProduct := item_at (items w) k\<rparr>"
  by (simp add: setCurrentItems_def)

text \<open>
  C5. Each of \<open>currentPlacement\<close>, \<open>currentPaywall\<close> and \<open>currentProduct\<close> returns the
  explicitly selected value when there is one; otherwise the first item of the parent
  collection (the first placement of the session, the first paywall of the current
  placement, item 0 of the current paywall); otherwise no value. So a value is returned
  whenever the parent collection is not empty. The three functions have no failing branch.
\<close>

theorem current_items_fallback:
  "(priv_currentPlacement s = Some p \<longrightarrow> currentPlacement s = Some p) \<and>
   (priv_currentPlacement s = None \<longrightarrow>
      currentPlacement s = (case placements s of [] \<Rightarrow> None | x # _ \<Rightarrow> Some x)) \<and>
   (priv_currentPaywall s = Some w \<longrightarrow> currentPaywall s = Some w) \<and>
   (priv_currentPaywall s = None \<longrightarrow>
      currentPaywall s =
        (case currentPlacement s of
           None \<Rightarrow> None
         | Some q \<Rightarrow> (case paywalls q of [] \<Rightarrow> None | x # _ \<Rightarrow> Some x))) \<and>
   (priv_currentProduct s = Some i \<longrightarrow> currentProduct s = Some i) \<and>
   (priv_currentProduct s = None \<longrightarrow>
      currentProduct s =
        (case currentPaywall s of
           None \<Rightarrow> None
         | Some v \<Rightarrow> (case items v of [] \<Rightarrow> None | x # _ \<Rightarrow> Some x))) \<and>
   (placements s \<noteq> [] \<longrightarrow> currentPlacement s \<noteq> None) \<and>
   ((\<exists>q. currentPlacement s = Some q \<and> paywalls q \<noteq> []) \<longrightarrow> currentPaywall s \<noteq> None) \<and>
   ((\<exists>v. currentPaywall s = Some v \<and> items v \<noteq> []) \<longrightarrow> currentProduct s \<noteq> None)"
  by (auto simp: currentPlacement_def currentPaywall_def currentProduct_def item_at_def
           split: option.splits list.splits)

theorem current_items_fallback_witness:
  "priv_currentPlacement (session [placement_main]) = None \<and>
   placements (session [placement_main]) \<noteq> [] \<and>
   currentPlacement (session [placement_main]) = Some placement_main \<and>
   currentPaywall (session [placement_main]) = Some paywall_main \<and>
   currentProduct (session [placement_main]) = Some product_a \<and>
   priv_currentProduct (setCurrentItems ''main'' (Num 1) (session [placement_main])) =
     Some product_b \<and>
   currentProduct (setCurrentItems ''main'' (Num 1) (session [placement_main])) = Some product_b \<and>
   currentProduct (session []) = None"
  using current_items_fallback [of "session [placement_main]" placement_main paywall_main product_a]
    current_items_fallback [of "setCurrentItems ''main'' (Num 1) (session [placement_main])"
      placement_main paywall_main product_b]
    current_items_fallback [of "session []" placement_main paywall_main product_a]
  by (simp add: product_a_def product_b_def paywall_main_def placement_main_def session_def
       setCurrentItems_def findPlacementByID_def item_at_def
       currentPlacement_def currentPaywall_def currentProduct_def)

text \<open>
  C6. After a selection of \<open>(placementID, 1)\<close> that succeeded (the placement is in the
  list, it has a paywall, and the paywall has an item 1), a selection with an id that is
  not in the list raises nothing, and \<open>currentProduct\<close> still returns the product that
  the first selection resolved.
\<close>

theorem unknown_selection_keeps_product:
  assumes "findPlacementByID s (Some placementID) = Some p"
    and "paywalls p = w # ws"
    and "item_at (items w) (Num 1) = Some x"
    and "findPlacementByID s (Some unknown) = None"
  shows "currentProduct
           (selectPlacementProduct K unknown k
              (selectPlacementProduct K placementID (Num 1) s)) = Some x"
  using assms
  by (simp add: selectPlacementProduct_def Let_def setCurrentItems_found setCurrentItems_unknown
        findPlacementByID_def currentProduct_def)

theorem unknown_selection_keeps_product_witness:
  "findPlacementByID (session [placement_main]) (Some ''main'') = Some placement_main \<and>
   paywalls placement_main = paywall_main # [] \<and>
   item_at (items paywall_main) (Num 1) = Some product_b \<and>
   findPlacementByID (session [placement_main]) (Some ''unknown-id'') = None \<and>
   currentProduct
     (selectPlacementProduct days30 ''unknown-id'' (Num 0)
        (selectPlacementProduct days30 ''main'' (Num 1) (session [placement_main]))) =
     Some product_b"
  using unknown_selection_keeps_product
    [of "session [placement_main]" "''main''" placement_main paywall_main "[]" product_b
        "''unknown-id''" days30 "Num 0"]
  by (simp add: product_a_def product_b_def paywall_main_def placement_main_def session_def
       findPlacementByID_def item_at_def)

text \<open>
  C10. A selection with a placement id that is not in the list overwrites the stored
  current placement with no value, so that \<open>currentPlacement\<close> falls back to the first
  placement of the session, and leaves the stored current paywall and current product as
  they were: \<open>currentPaywall\<close> and \<open>currentProduct\<close> go on returning them. The witness
  shows a session where the placement returned then differs from the placement that the
  returned paywall and product belong to.
\<close>

theorem unknown_selection_mixes_placements:
  assumes "findPlacementByID s (Some unknown) = None"
  shows "priv_currentPlacement (selectPlacementProduct K unknown k s) = None \<and>
         currentPlacement (selectPlacementProduct K unknown k s) =
           (case placements s of [] \<Rightarrow> None | x # _ \<Rightarrow> Some x) \<and>
         priv_currentPaywall (selectPlacementProduct K unknown k s) = priv_currentPaywall s \<and>
         priv_currentProduct (selectPlacementProduct K unknown k s) = priv_currentProduct s \<and>
         (priv_currentPaywall s = Some w \<longrightarrow>
            currentPaywall (selectPlacementProduct K unknown k s) = Some w) \<and>
         (priv_currentProduct s = Some x \<longrightarrow>
            currentProduct (selectPlacementProduct K unknown k s) = Some x)"
  using assms
  by (simp add: selectPlacementProduct_def Let_def setCurrentItems_unknown currentPlacement_def
        currentPaywall_def currentProduct_def item_at_def split: list.splits)

theorem unknown_selection_mixes_placements_witness:
  "findPlacementByID
     (selectPlacementProduct days30 ''promo'' (Num 0) (session [placement_main, placement_promo]))
     (Some ''nowhere'') = None \<and>
   currentPlacement
     (selectPlacementProduct days30 ''nowhere'' (Num 0)
        (selectPlacementProduct days30 ''promo'' (Num 0)
           (session [placement_main, placement_promo]))) = Some placement_main \<and>
   currentPaywall
     (selectPlacementProduct days30 ''nowhere'' (Num 0)
        (selectPlacementProduct days30 ''promo'' (Num 0)
           (session [placement_main, placement_promo]))) = Some paywall_promo \<and>
   currentProduct
     (selectPlacementProduct days30 ''nowhere'' (Num 0)
        (selectPlacementProduct days30 ''promo'' (Num 0)
           (session [placement_main, placement_promo]))) = Some product_c \<and>
   paywall_promo \<notin> set (paywalls placement_main) \<and>
   paywall_promo \<in> set (paywalls placement_promo)"
  using unknown_selection_mixes_placements
    [of "selectPlacementProduct days30 ''promo'' (Num 0) (session [placement_main, placement_promo])"
        "''nowhere''" days30 "Num 0" paywall_promo product_c]
  by (simp add: product_a_def product_b_def product_c_def paywall_main_def paywall_promo_def
       placement_main_def placement_promo_def session_def selectPlacementProduct_def
       setCurrentItems_def findPlacementByID_def item_at_def)

text \<open>
  C7 does not hold of \<open>readVariableValueByKeyPath\<close>. A composite key that names a
  placement without paywalls raises a \<open>TypeError\<close> where the claim promises no value: the
  product is read from the first paywall without the check that \<open>setCurrentItems\<close> makes.
  And with the selection \<open>main,1\<close> persisted, a composite key whose placement part is
  empty is not resolved against the persisted selection, as the bare path is: the test
  \<open>placementID === null\<close> never holds of a piece of a split string, so the empty id is
  looked up and not found.
\<close>

theorem readVariable_failing_inputs:
  "readVariableValueByKeyPath (session [placement_bare]) ''bare,0,price.amount'' = Inl TypeError \<and>
   getSavedPlacementProductIndex selected_main_1 = (Some ''main'', Num 1) \<and>
   readVariableValueByKeyPath selected_main_1 ''price.amount'' = Inr (Some ''49.99'') \<and>
   readVariableValueByKeyPath selected_main_1 ''main,-1,price.amount'' = Inr (Some ''49.99'') \<and>
   readVariableValueByKeyPath selected_main_1 '',0,price.amount'' = Inr None"
  by (simp add: product_a_def product_b_def paywall_main_def placement_main_def
        placement_bare_def session_def days30_def selected_main_1_def
        selectPlacementProduct_def setCookie_def getCookie_def show_number_def Let_def
        getSavedPlacementProductIndex_def trim_def is_space_def parseInt_def is_digit_def
        digit_value_def digits_value_def readVariableValueByKeyPath_def findPlacementByID_def
        setCurrentItems_def item_at_def getValueByPath_def negative_def strictly_null_def)

section \<open>Event delivery queue: proofs\<close>

text \<open>
  On values that JSON represents exactly, parsing what was written gives the value back.
\<close>

lemma json_value_value_json:
  "json_exact v \<Longrightarrow> json_value (value_json v) = v"
  "exact_elements xs \<Longrightarrow> json_elements (elements_json xs) = xs"
  "exact_members kvs \<Longrightarrow> json_members (members_json kvs) = kvs"
  by (induction v and xs and kvs rule: value_json_elements_json_members_json.induct)
     (auto split: number.splits)

lemma json_hash_hash_json: "exact_members h \<Longrightarrow> json_hash (hash_json h) = Some h"
  by (simp add: json_hash_def hash_json_def json_value_value_json)

lemma json_event_event_json: "exact_event e \<Longrightarrow> json_event (event_json e) = Some e"
  by (cases e; cases "user_id e"; cases "device_id e"; cases "event_id e")
     (simp_all add: json_event_def event_json_def optional_field_def json_optional_def
        json_string_def json_int_def exact_event_def json_hash_hash_json)

lemma those_json_events:
  "list_all exact_event q \<Longrightarrow> those (map (json_event \<circ> event_json) q) = Some q"
  by (induction q) (simp_all add: json_event_event_json)

lemma JSON_parse_stringify: "list_all exact_event q \<Longrightarrow> JSON_parse (JSON_stringify q) = Some q"
  by (simp add: JSON_parse_def JSON_stringify_def those_json_events)

text \<open>
  Events made by \<open>track\<close> carry no \<open>id\<close>. For such events the success handler removes
  the head of the backlog, whichever event was delivered.
\<close>

lemma event_created_removes_head:
  "event_id (objects t r) = None \<Longrightarrow> eventQueue t = x # xs \<Longrightarrow> event_id (objects t x) = None \<Longrightarrow>
   eventQueue (event_created canStringify r t) = xs"
  by (simp add: event_created_def saveEventQueue_def Let_def)

text \<open>
  C2 does not hold of the success handler of \<open>trackEvent\<close>. Two events are tracked, with
  insertion ids \<open>id-1\<close> and \<open>id-2\<close>; both timers fire; the ingestion call for the second
  event succeeds. The handler compares the field \<open>id\<close>, which no event carries, removes
  the first record and keeps the delivered one, in memory and in the persisted backlog.
\<close>

theorem trackEvent_success_removes_other_record:
  "map (\<lambda>r. insert_id (objects tracked r)) (eventQueue tracked) = [''id-1'', ''id-2''] \<and>
   insert_id (objects tracked 1) = ''id-2'' \<and>
   map (\<lambda>r. insert_id (objects second_delivered r)) (eventQueue second_delivered) = [''id-2''] \<and>
   map_option (map insert_id)
     (Option.bind (getCookie EventsKey (jar second_delivered)) JSON_parse) = Some [''id-2'']"
  by (simp add: tracked_def second_delivered_def track_def ready_task_def new_tracker_def
        saveEventQueue_def Let_def getUserID_def getCookie_def setCookie_def event_created_def
        timeout_fired_def trackEvent_def eventData_def JSON_parse_stringify exact_event_def)




section \<open>Stripe payment form: proofs\<close>

text \<open>
  Every run of the submit handler on a form that holds the provider objects and a
  subscription asks for a confirmation with the secret of that subscription, and creates
  no subscription.
\<close>

lemma submit_handler_effects:
  "stripe f \<Longrightarrow> elements f \<Longrightarrow> subscription f = Some sub \<Longrightarrow>
   \<exists>f' rest. submit_handler K cfg options href confirmation f = Inr f' \<and>
     form_effects f' =
       form_effects f @ [PreventDefault, ElementsSubmit, ConfirmPayment (client_secret sub) href]
         @ rest \<and>
     filter is_create rest = [] \<and> subscription f' = Some sub"
  by (cases confirmation)
     (auto simp: submit_handler_def setButtonState_def emit_def Let_def
        split: option.splits button_state.splits)

text \<open>
  C8. When the confirmation returns no error, the handler emits \<open>payment_success\<close> with
  the user's id, once, and no \<open>payment_failure\<close>; it stores the deep link of the
  subscription under \<open>DeepLinkURL\<close> for \<open>SelectedProductDuration\<close> days when there is a
  deep link (one that is not the empty string); and it sets one timer, with the
  configured delay, that navigates: to the success URL of the options when that is given,
  not empty and not the text \<open>undefined\<close>, otherwise to the base success URL followed by
  \<open>/\<close> and the deep link. Nothing else navigates.
\<close>

theorem confirmed_payment_success:
  assumes "stripe f" and "elements f" and "subscription f = Some sub"
  shows "case submit_handler K cfg options href None f of
           Inl _ \<Rightarrow> False
         | Inr f' \<Rightarrow>
             form_effects f' =
               form_effects f @
               [PreventDefault, ElementsSubmit, ConfirmPayment (client_secret sub) href,
                Emit (payment_success (form_user_id f))] @
               (if truthy (deep_link sub)
                then [FormCookieWritten DeepLinkURL (to_text (deep_link sub))
                        (SelectedProductDuration K)]
                else []) @
               [FormTimeout (redirectDelay cfg)
                  (Navigate (redirect_target cfg options (deep_link sub)))] \<and>
             length (filter is_success (form_effects f')) =
               length (filter is_success (form_effects f)) + 1 \<and>
             length (filter is_navigation (form_effects f')) =
               length (filter is_navigation (form_effects f)) + 1 \<and>
             filter is_failure (form_effects f') = filter is_failure (form_effects f) \<and>
             (truthy (deep_link sub) \<longrightarrow>
                getCookie DeepLinkURL (form_cookies f') = Some (to_text (deep_link sub)) \<and>
                map_option snd (form_cookies f' DeepLinkURL) = Some (SelectedProductDuration K)) \<and>
             (\<not> truthy (deep_link sub) \<longrightarrow> form_cookies f' = form_cookies f) \<and>
             redirect_target cfg options (deep_link sub) =
               (case options of
                  None \<Rightarrow> baseSuccessURL cfg @ ''/'' @ to_text (deep_link sub)
                | Some opts \<Rightarrow>
                    (case successUrl opts of
                       None \<Rightarrow> baseSuccessURL cfg @ ''/'' @ to_text (deep_link sub)
                     | Some u \<Rightarrow>
                         if u \<noteq> [] \<and> u \<noteq> ''undefined'' then u
                         else baseSuccessURL cfg @ ''/'' @ to_text (deep_link sub)))"
  using assms
  by (auto simp: submit_handler_def setButtonState_def emit_def Let_def getCookie_def
        setCookie_def redirect_target_def truthy_def to_text_def
        split: option.splits button_state.splits)

theorem confirmed_payment_success_witness:
  "stripe shown_form \<and> elements shown_form \<and>
   subscription shown_form =
     Some \<lparr>client_secret = Some ''cs_1'', deep_link = Some ''app://done''\<rparr> \<and>
   map_sum id form_effects
     (submit_handler days30 site (Some \<lparr>successUrl = Some ''undefined''\<rparr>)
        ''https://example.org/pay'' None shown_form) =
     Inr [Emit payment_form_initialized,
          CreateSubscription ''prov-1'' ''price_1'' (Some ''pw1'') (Some ''pl1'') ''u-7'',
          Mount, Emit payment_form_ready, PreventDefault, ElementsSubmit,
          ConfirmPayment (Some ''cs_1'') ''https://example.org/pay'',
          Emit (payment_success ''u-7''),
          FormCookieWritten DeepLinkURL ''app://done'' 30,
          FormTimeout 500 (Navigate ''https://example.org/success/app://done'')] \<and>
   redirect_target site (Some \<lparr>successUrl = Some ''https://example.org/thanks''\<rparr>)
     (Some ''app://done'') = ''https://example.org/thanks''"
  using confirmed_payment_success
    [where f = shown_form
       and sub = "\<lparr>client_secret = Some ''cs_1'', deep_link = Some ''app://done''\<rparr>"
       and K = days30 and cfg = site and options = "Some \<lparr>successUrl = Some ''undefined''\<rparr>"
       and href = "''https://example.org/pay''"]
    confirmed_payment_success
    [where f = shown_form
       and sub = "\<lparr>client_secret = Some ''cs_1'', deep_link = Some ''app://done''\<rparr>"
       and K = days30 and cfg = site
       and options = "Some \<lparr>successUrl = Some ''https://example.org/thanks''\<rparr>"
       and href = "''https://example.org/pay''"]
  by (simp add: shown_form_def new_form_def show_def paymentElement_ready_def emit_def
        setButtonState_def initStripe_def setupForm_def Let_def site_def days30_def
        truthy_def to_text_def split: sum.splits)

text \<open>
  C9. When the confirmation returns an error, the handler emits \<open>payment_failure\<close> with
  that error, once; it writes the message of the error to \<open>#error-message\<close> when the page
  has that element and touches nothing otherwise; and it enables the submit button and
  gives it the ready label, which is the text that \<open>show\<close> read from the button (the
  default label when the button had no text). The subscription stays: a further
  submission asks for a confirmation with the same secret and creates no subscription.
\<close>

theorem failed_confirmation_recovers:
  assumes "stripe f" and "elements f" and "subscription f = Some sub"
  shows "(case submit_handler K cfg options href (Some err) f of
           Inl _ \<Rightarrow> False
         | Inr f' \<Rightarrow>
             form_effects f' =
               form_effects f @
               [PreventDefault, ElementsSubmit, ConfirmPayment (client_secret sub) href,
                Emit (payment_failure (ConfirmationFailed err))] \<and>
             length (filter is_failure (form_effects f')) =
               length (filter is_failure (form_effects f)) + 1 \<and>
             error_message f' =
               (case error_message f of
                  None \<Rightarrow> None
                | Some _ \<Rightarrow> Some (case message err of None \<Rightarrow> [] | Some m \<Rightarrow> m)) \<and>
             submit f' =
               map_option (\<lambda>b. b\<lparr>disabled := False, innerText := submitReadyText f\<rparr>) (submit f) \<and>
             submitReadyText f' = submitReadyText f \<and>
             subscription f' = subscription f \<and>
             (case submit_handler K cfg options href again f' of
                Inl _ \<Rightarrow> False
              | Inr f'' \<Rightarrow>
                  take 3 (drop (length (form_effects f')) (form_effects f'')) =
                    [PreventDefault, ElementsSubmit, ConfirmPayment (client_secret sub) href] \<and>
                  filter is_create (form_effects f'') = filter is_create (form_effects f) \<and>
                  subscription f'' = subscription f)) \<and>
         submitReadyText (show productId paywallId placementId (Some b) form_present created f0) =
           (if innerText b \<noteq> [] then innerText b else submitReadyText f0)"
proof -
  obtain f' where r: "submit_handler K cfg options href (Some err) f = Inr f'"
    using submit_handler_effects[OF assms] by blast
  have first:
    "form_effects f' =
       form_effects f @
       [PreventDefault, ElementsSubmit, ConfirmPayment (client_secret sub) href,
        Emit (payment_failure (ConfirmationFailed err))]"
    "error_message f' =
       (case error_message f of
          None \<Rightarrow> None
        | Some _ \<Rightarrow> Some (case message err of None \<Rightarrow> [] | Some m \<Rightarrow> m))"
    "submit f' =
       map_option (\<lambda>b. b\<lparr>disabled := False, innerText := submitReadyText f\<rparr>) (submit f)"
    "submitReadyText f' = submitReadyText f" "subscription f' = subscription f"
    "stripe f'" "elements f'"
    using r assms
    by (auto simp: submit_handler_def setButtonState_def emit_def Let_def truthy_def to_text_def
          split: option.splits button_state.splits)
  from first(5,6,7) assms(3) have pre: "stripe f'" "elements f'" "subscription f' = Some sub"
    by simp_all
  obtain f'' rest where
    r2: "submit_handler K cfg options href again f' = Inr f''"
    and e2: "form_effects f'' =
       form_effects f' @ [PreventDefault, ElementsSubmit, ConfirmPayment (client_secret sub) href]
         @ rest"
    and c2: "filter is_create rest = []" and s2: "subscription f'' = Some sub"
    using submit_handler_effects[OF pre] by blast
  have label:
    "submitReadyText (show productId paywallId placementId (Some b) form_present created f0) =
       (if innerText b \<noteq> [] then innerText b else submitReadyText f0)"
    by (cases created)
       (auto simp: show_def emit_def setButtonState_def initStripe_def setupForm_def Let_def
          split: option.splits)
  show ?thesis
    using r r2 first e2 c2 s2 assms(3) label by simp
qed

theorem failed_confirmation_recovers_witness:
  "stripe shown_form \<and> elements shown_form \<and>
   subscription shown_form =
     Some \<lparr>client_secret = Some ''cs_1'', deep_link = Some ''app://done''\<rparr> \<and>
   map_sum id submit
     (submit_handler days30 site None ''https://example.org/pay''
        (Some (StripeError (Some ''Your card was declined.''))) shown_form) =
     Inr (Some \<lparr>disabled = False, innerText = ''Pay now''\<rparr>) \<and>
   map_sum id error_message
     (submit_handler days30 site None ''https://example.org/pay''
        (Some (StripeError (Some ''Your card was declined.''))) shown_form) =
     Inr (Some ''Your card was declined.'') \<and>
   map_sum id (filter is_failure \<circ> form_effects)
     (submit_handler days30 site None ''https://example.org/pay''
        (Some (StripeError (Some ''Your card was declined.''))) shown_form) =
     Inr [Emit (payment_failure (ConfirmationFailed (StripeError (Some ''Your card was declined.''))))]"
  using failed_confirmation_recovers
    [where f = shown_form
       and sub = "\<lparr>client_secret = Some ''cs_1'', deep_link = Some ''app://done''\<rparr>"
       and K = days30 and cfg = site and options = None
       and href = "''https://example.org/pay''"
       and err = "StripeError (Some ''Your card was declined.'')" and again = None
       and productId = "''price_1''" and paywallId = None and placementId = None
       and b = "\<lparr>disabled = False, innerText = ''Pay now''\<rparr>" and form_present = True
       and created = Rejected and ?f0.0 = new_form]
  by (simp add: shown_form_def new_form_def show_def paymentElement_ready_def emit_def
        setButtonState_def initStripe_def setupForm_def Let_def submit_handler_def
        truthy_def to_text_def split: sum.splits)

end
